theory Spec2Isabelle
  imports Main
begin

section \<open>The Stable Diffusion model loader\<close>

text \<open>
  A shallow embedding of \<^verbatim>\<open>modules/modelLoader/StableDiffusionModelLoader.py\<close>.
  The loader is glue code: it calls the file system and the \<^verbatim>\<open>diffusers\<close>,
  \<^verbatim>\<open>transformers\<close>, \<^verbatim>\<open>safetensors\<close>, \<^verbatim>\<open>torch\<close>, \<^verbatim>\<open>json\<close> and \<^verbatim>\<open>yaml\<close>
  libraries, and decides only in which order to call them and what to do when a
  call raises. The libraries are therefore parameters of the model (the record
  \<open>env\<close> below); the control flow, the exception handling and the table of
  default configuration files are translated from the source line by line.
\<close>

subsection \<open>Exceptions and Python values\<close>

text \<open>
  An exception is modelled by the class that the handlers of this file can tell
  apart, with its message. \<open>OtherError\<close> stands for every class that is
  neither named here nor a subclass of one named here.
\<close>

datatype exn =
    FileNotFoundError string
  | TypeError string
  | KeyError string
  | AttributeError string
  | Exception string
  | OtherError string

text \<open>The data that \<^verbatim>\<open>json.load\<close> and \<^verbatim>\<open>yaml.safe_load\<close> produce. A float is kept
  as its literal.\<close>

datatype pyval =
    PyNone
  | PyBool bool
  | PyInt int
  | PyFloat string
  | PyStr string
  | PyList "pyval list"
  | PyDict "(string \<times> pyval) list"

text \<open>\<^verbatim>\<open>v[key]\<close> for a string key: a dict yields the entry or raises KeyError; every
  other JSON value raises TypeError (a list or a string wants an integer index, the
  rest is not subscriptable).\<close>

fun py_getitem :: "pyval \<Rightarrow> string \<Rightarrow> exn + pyval" where
  "py_getitem (PyDict kvs) key =
     (case map_of kvs key of
        None \<Rightarrow> Inl (KeyError key)
      | Some v \<Rightarrow> Inr v)"
| "py_getitem (PyList xs) key = Inl (TypeError ''list indices must be integers or slices, not str'')"
| "py_getitem (PyStr s) key = Inl (TypeError ''string indices must be integers'')"
| "py_getitem v key = Inl (TypeError ''object is not subscriptable'')"

subsection \<open>Effects: the history of external calls\<close>

text \<open>
  The world is the history of what the loader has done to the outside so far:
  the external calls it made and the lines it printed. Every answer of the file
  system or of a library may depend on that history, so nothing is assumed about
  two calls with the same arguments giving the same answer.
\<close>

datatype event = Call string | Print string

type_synonym world = "event list"

type_synonym 'a io = "world \<Rightarrow> (exn + 'a) \<times> world"

definition io_return :: "'a \<Rightarrow> 'a io" where
  "io_return x = (\<lambda>w. (Inr x, w))"

definition io_raise :: "exn \<Rightarrow> 'a io" where
  "io_raise e = (\<lambda>w. (Inl e, w))"

definition io_lift :: "exn + 'a \<Rightarrow> 'a io" where
  "io_lift r = (\<lambda>w. (r, w))"

definition io_bind :: "'a io \<Rightarrow> ('a \<Rightarrow> 'b io) \<Rightarrow> 'b io" where
  "io_bind m f = (\<lambda>w. case m w of
                         (Inl e, w') \<Rightarrow> (Inl e, w')
                       | (Inr x, w') \<Rightarrow> f x w')"

text \<open>\<^verbatim>\<open>try: m  except: h\<close> (a bare except catches every exception).\<close>

definition io_try :: "'a io \<Rightarrow> (exn \<Rightarrow> 'a io) \<Rightarrow> 'a io" where
  "io_try m h = (\<lambda>w. case m w of
                        (Inl e, w') \<Rightarrow> h e w'
                      | (Inr x, w') \<Rightarrow> (Inr x, w'))"

text \<open>\<^verbatim>\<open>try: m  except FileNotFoundError: h\<close>: every other exception propagates.\<close>

definition io_except_FileNotFoundError :: "'a io \<Rightarrow> 'a io \<Rightarrow> 'a io" where
  "io_except_FileNotFoundError m h = (\<lambda>w. case m w of
                        (Inl (FileNotFoundError msg), w') \<Rightarrow> h w'
                      | (Inl e, w') \<Rightarrow> (Inl e, w')
                      | (Inr x, w') \<Rightarrow> (Inr x, w'))"

text \<open>An external call: the answer is read from the history so far, and the call
  is appended to the history.\<close>

definition ext :: "string \<Rightarrow> (world \<Rightarrow> exn + 'a) \<Rightarrow> 'a io" where
  "ext name answer = (\<lambda>w. (answer w, w @ [Call name]))"

definition py_print :: "string \<Rightarrow> unit io" where
  "py_print s = (\<lambda>w. (Inr (), w @ [Print s]))"

subsection \<open>The data model\<close>

text \<open>\<^verbatim>\<open>ModelType\<close> is an enum of the repository whose declaration is outside this
  file. The eight members the loader names are constructors; \<open>OTHER_MODEL_TYPE\<close>
  carries the name of any other member.\<close>

datatype ModelType =
    STABLE_DIFFUSION_15
  | STABLE_DIFFUSION_15_INPAINTING
  | STABLE_DIFFUSION_20
  | STABLE_DIFFUSION_20_BASE
  | STABLE_DIFFUSION_20_INPAINTING
  | STABLE_DIFFUSION_20_DEPTH
  | STABLE_DIFFUSION_21
  | STABLE_DIFFUSION_21_BASE
  | OTHER_MODEL_TYPE string

text \<open>
  Objects of the libraries and of the repository's other modules (a tokenizer, a
  network, a scheduler, an open file, a dtype, a \<^verbatim>\<open>ModelSpec\<close>) are opaque to
  the loader: it only passes them on. They are values of the type parameter \<open>'o\<close>.
\<close>

text \<open>\<^verbatim>\<open>ModelWeightDtypes\<close>: the fields \<^verbatim>\<open>text_encoder\<close>, \<^verbatim>\<open>vae\<close> and \<^verbatim>\<open>unet\<close>,
  each a \<^verbatim>\<open>DataType\<close>.\<close>

record 'o ModelWeightDtypes =
  dtype_text_encoder :: 'o
  dtype_vae :: 'o
  dtype_unet :: 'o

text \<open>The pipeline that \<^verbatim>\<open>download_from_original_stable_diffusion_ckpt\<close> returns, as
  far as the loader reads it.\<close>

record 'o pipeline =
  pipeline_tokenizer :: 'o
  pipeline_text_encoder :: 'o
  pipeline_vae :: 'o
  pipeline_unet :: 'o

record TrainProgress =
  epoch :: pyval
  epoch_step :: pyval
  epoch_sample :: pyval
  global_step :: pyval

text \<open>\<^verbatim>\<open>StableDiffusionModel\<close>. A field that may hold \<^verbatim>\<open>None\<close> is an option.\<close>

record 'o StableDiffusionModel =
  model_type :: ModelType
  tokenizer :: 'o
  noise_scheduler :: 'o
  text_encoder :: 'o
  vae :: 'o
  unet :: 'o
  image_depth_processor :: "'o option"
  depth_estimator :: "'o option"
  sd_config :: pyval
  model_spec :: "'o option"
  optimizer_state_dict :: "'o option"
  ema_state_dict :: "'o option"
  train_progress :: "TrainProgress option"

text \<open>The constructor call \<^verbatim>\<open>StableDiffusionModel(model_type=..., ..., model_spec=...)\<close>
  with the ten keyword arguments the loader passes. The class is declared outside
  this file: the three fields the loader does not pass are left at \<open>None\<close>, which
  stands for whatever the constructor's default is.\<close>

definition StableDiffusionModel_init ::
  "ModelType \<Rightarrow> 'o \<Rightarrow> 'o \<Rightarrow> 'o \<Rightarrow> 'o \<Rightarrow> 'o \<Rightarrow> 'o option \<Rightarrow> 'o option \<Rightarrow> pyval \<Rightarrow> 'o
     \<Rightarrow> 'o StableDiffusionModel" where
  "StableDiffusionModel_init mt tok sched te v u idp de cfg ms =
     \<lparr> model_type = mt, tokenizer = tok, noise_scheduler = sched, text_encoder = te,
       vae = v, unet = u, image_depth_processor = idp, depth_estimator = de,
       sd_config = cfg, model_spec = Some ms,
       optimizer_state_dict = None, ema_state_dict = None, train_progress = None \<rparr>"

subsection \<open>The environment: file system, libraries, other modules\<close>

text \<open>
  Everything the loader calls and this file does not define. The functions of the
  standard library that only compute on strings (\<^verbatim>\<open>os.path.join\<close>,
  \<^verbatim>\<open>os.path.splitext\<close>, \<^verbatim>\<open>traceback.format_exc\<close>) and the methods of the
  repository's own value classes are pure parameters. Every function that touches
  the file system or builds a library object takes the history as its first
  argument and may raise.
\<close>

record 'o env =
  os_path_join :: "string \<Rightarrow> string list \<Rightarrow> string"
  os_path_splitext :: "string \<Rightarrow> string \<times> string"
  format_exc :: "exn \<Rightarrow> string"
  has_depth_input :: "ModelType \<Rightarrow> bool"
  torch_dtype :: "'o \<Rightarrow> 'o"
  ModelSpec_new :: 'o
  ModelSpec_from_dict :: "pyval \<Rightarrow> exn + 'o"
  os_path_exists :: "world \<Rightarrow> string \<Rightarrow> bool"
  open_r :: "world \<Rightarrow> string \<Rightarrow> exn + 'o"
  json_load :: "world \<Rightarrow> 'o \<Rightarrow> exn + pyval"
  yaml_safe_load :: "world \<Rightarrow> 'o \<Rightarrow> exn + pyval"
  torch_load :: "world \<Rightarrow> string \<Rightarrow> exn + 'o"
  CLIPTokenizer_from_pretrained :: "world \<Rightarrow> string option \<Rightarrow> string \<Rightarrow> exn + 'o"
  DDIMScheduler_from_pretrained :: "world \<Rightarrow> string option \<Rightarrow> string \<Rightarrow> exn + 'o"
  CLIPTextModel_from_pretrained :: "world \<Rightarrow> string option \<Rightarrow> string \<Rightarrow> 'o \<Rightarrow> exn + 'o"
  AutoencoderKL_from_pretrained :: "world \<Rightarrow> string option \<Rightarrow> string \<Rightarrow> 'o \<Rightarrow> exn + 'o"
  UNet2DConditionModel_from_pretrained :: "world \<Rightarrow> string option \<Rightarrow> string \<Rightarrow> 'o \<Rightarrow> exn + 'o"
  DPTImageProcessor_from_pretrained :: "world \<Rightarrow> string option \<Rightarrow> string \<Rightarrow> exn + 'o"
  DPTForDepthEstimation_from_pretrained :: "world \<Rightarrow> string option \<Rightarrow> string \<Rightarrow> 'o \<Rightarrow> exn + 'o"
  download_from_original_stable_diffusion_ckpt ::
    "world \<Rightarrow> string option \<Rightarrow> string option \<Rightarrow> bool \<Rightarrow> exn + 'o pipeline"
  DDIMScheduler_init :: "world \<Rightarrow> exn + 'o"
  module_to :: "world \<Rightarrow> 'o \<Rightarrow> 'o \<Rightarrow> exn + 'o"
  safe_open :: "world \<Rightarrow> string option \<Rightarrow> exn + 'o"
  metadata :: "world \<Rightarrow> 'o \<Rightarrow> exn + (string \<times> string) list option"

text \<open>
  The arguments are those of the source: the from_pretrained functions take the
  model name (possibly \<^verbatim>\<open>None\<close>), the subfolder and, where the source passes one,
  the torch dtype; the checkpoint converter takes the checkpoint path, the original
  config file and the \<^verbatim>\<open>from_safetensors\<close> flag (\<^verbatim>\<open>load_safety_checker\<close> is always
  \<^verbatim>\<open>False\<close>); \<open>DDIMScheduler_init\<close> is the constructor call with the nine constant
  arguments of the source; \<open>module_to m d\<close> is \<^verbatim>\<open>m.to(dtype=d)\<close>; \<open>metadata f\<close>
  is \<^verbatim>\<open>f.metadata()\<close>, a dict from strings to strings or \<^verbatim>\<open>None\<close>.
\<close>

subsection \<open>Standard-library calls on a name that may be None\<close>

text \<open>\<^verbatim>\<open>os.path.join(a, *ps)\<close> and \<^verbatim>\<open>os.path.splitext(a)[0]\<close> raise TypeError when
  \<^verbatim>\<open>a\<close> is \<^verbatim>\<open>None\<close>, and so does \<^verbatim>\<open>open(None, "r")\<close>.\<close>

definition py_path_join :: "'o env \<Rightarrow> string option \<Rightarrow> string list \<Rightarrow> string io" where
  "py_path_join env a ps =
     (case a of
        None \<Rightarrow> io_raise (TypeError ''expected str, bytes or os.PathLike object, not NoneType'')
      | Some s \<Rightarrow> io_return (os_path_join env s ps))"

definition py_splitext_root :: "'o env \<Rightarrow> string option \<Rightarrow> string io" where
  "py_splitext_root env a =
     (case a of
        None \<Rightarrow> io_raise (TypeError ''expected str, bytes or os.PathLike object, not NoneType'')
      | Some s \<Rightarrow> io_return (fst (os_path_splitext env s)))"

definition py_open :: "'o env \<Rightarrow> string option \<Rightarrow> 'o io" where
  "py_open env name =
     (case name of
        None \<Rightarrow> io_raise (TypeError ''expected str, bytes or os.PathLike object, not NoneType'')
      | Some p \<Rightarrow> ext ''open'' (\<lambda>w. open_r env w p))"

definition py_exists :: "'o env \<Rightarrow> string \<Rightarrow> bool io" where
  "py_exists env p = ext ''os.path.exists'' (\<lambda>w. Inr (os_path_exists env w p))"

text \<open>\<^verbatim>\<open>model.field = value\<close>: on \<^verbatim>\<open>None\<close> the assignment raises AttributeError.\<close>

definition set_attr ::
  "'m option \<Rightarrow> ('m \<Rightarrow> 'm) \<Rightarrow> 'm option io" where
  "set_attr model upd =
     (case model of
        None \<Rightarrow> io_raise (AttributeError ''NoneType object has no such attribute'')
      | Some m \<Rightarrow> io_return (Some (upd m)))"

text \<open>\<^verbatim>\<open>key in d\<close> for the metadata of a safetensors file.\<close>

definition py_contains :: "(string \<times> string) list option \<Rightarrow> string \<Rightarrow> exn + bool" where
  "py_contains d key =
     (case d of
        None \<Rightarrow> Inl (TypeError ''argument of type NoneType is not iterable'')
      | Some kvs \<Rightarrow> Inr (key \<in> set (map fst kvs)))"

definition metadata_value :: "(string \<times> string) list option \<Rightarrow> pyval" where
  "metadata_value d =
     (case d of
        None \<Rightarrow> PyNone
      | Some kvs \<Rightarrow> PyDict (map (\<lambda>(k, v). (k, PyStr v)) kvs))"

subsection \<open>The default configuration file\<close>

fun default_yaml_name :: "ModelType \<Rightarrow> string option" where
  "default_yaml_name STABLE_DIFFUSION_15 = Some ''resources/diffusers_model_config/v1-inference.yaml''"
| "default_yaml_name STABLE_DIFFUSION_15_INPAINTING = Some ''resources/diffusers_model_config/v1-inpainting-inference.yaml''"
| "default_yaml_name STABLE_DIFFUSION_20 = Some ''resources/diffusers_model_config/v2-inference-v.yaml''"
| "default_yaml_name STABLE_DIFFUSION_20_BASE = Some ''resources/diffusers_model_config/v2-inference.yaml''"
| "default_yaml_name STABLE_DIFFUSION_20_INPAINTING = Some ''resources/diffusers_model_config/v2-inpainting-inference.yaml''"
| "default_yaml_name STABLE_DIFFUSION_20_DEPTH = Some ''resources/diffusers_model_config/v2-midas-inference.yaml''"
| "default_yaml_name STABLE_DIFFUSION_21 = Some ''resources/diffusers_model_config/v2-inference-v.yaml''"
| "default_yaml_name STABLE_DIFFUSION_21_BASE = Some ''resources/diffusers_model_config/v2-inference.yaml''"
| "default_yaml_name (OTHER_MODEL_TYPE name) = None"

subsection \<open>Loading a directory of sub-model folders\<close>

text \<open>\<^verbatim>\<open>__load_diffusers\<close>: seven library calls in the order of the source, the two
  depth objects only for a model type with depth input, then the default
  configuration file is opened and parsed, and the model is constructed with a
  fresh \<^verbatim>\<open>ModelSpec()\<close>.\<close>

definition load_diffusers ::
  "'o env \<Rightarrow> ModelType \<Rightarrow> 'o ModelWeightDtypes \<Rightarrow> string option
     \<Rightarrow> 'o StableDiffusionModel option io" where
  "load_diffusers env mt weight_dtypes base_model_name =
     io_bind (ext ''CLIPTokenizer.from_pretrained''
               (\<lambda>w. CLIPTokenizer_from_pretrained env w base_model_name ''tokenizer''))
     (\<lambda>tok.
     io_bind (ext ''DDIMScheduler.from_pretrained''
               (\<lambda>w. DDIMScheduler_from_pretrained env w base_model_name ''scheduler''))
     (\<lambda>sched.
     io_bind (ext ''CLIPTextModel.from_pretrained''
               (\<lambda>w. CLIPTextModel_from_pretrained env w base_model_name ''text_encoder''
                      (torch_dtype env (dtype_text_encoder weight_dtypes))))
     (\<lambda>te.
     io_bind (ext ''AutoencoderKL.from_pretrained''
               (\<lambda>w. AutoencoderKL_from_pretrained env w base_model_name ''vae''
                      (torch_dtype env (dtype_vae weight_dtypes))))
     (\<lambda>v.
     io_bind (ext ''UNet2DConditionModel.from_pretrained''
               (\<lambda>w. UNet2DConditionModel_from_pretrained env w base_model_name ''unet''
                      (torch_dtype env (dtype_unet weight_dtypes))))
     (\<lambda>u.
     io_bind (if has_depth_input env mt
              then io_bind (ext ''DPTImageProcessor.from_pretrained''
                             (\<lambda>w. DPTImageProcessor_from_pretrained env w base_model_name
                                    ''feature_extractor''))
                           (\<lambda>x. io_return (Some x))
              else io_return None)
     (\<lambda>idp.
     io_bind (if has_depth_input env mt
              then io_bind (ext ''DPTForDepthEstimation.from_pretrained''
                             (\<lambda>w. DPTForDepthEstimation_from_pretrained env w base_model_name
                                    ''depth_estimator''
                                    (torch_dtype env (dtype_unet weight_dtypes))))
                           (\<lambda>x. io_return (Some x))
              else io_return None)
     (\<lambda>de.
     io_bind (py_open env (default_yaml_name mt))
     (\<lambda>f.
     io_bind (ext ''yaml.safe_load'' (\<lambda>w. yaml_safe_load env w f))
     (\<lambda>cfg.
     io_return (Some (StableDiffusionModel_init mt tok sched te v u idp de cfg
                        (ModelSpec_new env))))))))))))"

subsection \<open>Loading the trainer's own format\<close>

text \<open>Lines 52 to 59 of \<^verbatim>\<open>__load_internal\<close>: \<^verbatim>\<open>meta.json\<close> is opened and parsed, and the
  four counters are read from its \<^verbatim>\<open>train_progress\<close> entry, in the order of the
  keyword arguments.\<close>

definition internal_train_progress :: "'o env \<Rightarrow> string option \<Rightarrow> TrainProgress io" where
  "internal_train_progress env base_model_name =
     io_bind (py_path_join env base_model_name [''meta.json''])
     (\<lambda>p.
     io_bind (py_open env (Some p))
     (\<lambda>meta_file.
     io_bind (ext ''json.load'' (\<lambda>w. json_load env w meta_file))
     (\<lambda>meta.
     io_bind (io_lift (py_getitem meta ''train_progress''))
     (\<lambda>tp1.
     io_bind (io_lift (py_getitem tp1 ''epoch''))
     (\<lambda>e.
     io_bind (io_lift (py_getitem meta ''train_progress''))
     (\<lambda>tp2.
     io_bind (io_lift (py_getitem tp2 ''epoch_step''))
     (\<lambda>es.
     io_bind (io_lift (py_getitem meta ''train_progress''))
     (\<lambda>tp3.
     io_bind (io_lift (py_getitem tp3 ''epoch_sample''))
     (\<lambda>esa.
     io_bind (io_lift (py_getitem meta ''train_progress''))
     (\<lambda>tp4.
     io_bind (io_lift (py_getitem tp4 ''global_step''))
     (\<lambda>gs.
     io_return \<lparr> epoch = e, epoch_step = es, epoch_sample = esa, global_step = gs \<rparr>
     )))))))))))"

text \<open>Lines 64 to 68, the optimizer state: only FileNotFoundError is handled.\<close>

definition internal_optimizer ::
  "'o env \<Rightarrow> string option \<Rightarrow> 'o StableDiffusionModel option
     \<Rightarrow> 'o StableDiffusionModel option io" where
  "internal_optimizer env base_model_name model =
     io_except_FileNotFoundError
       (io_bind (py_path_join env base_model_name [''optimizer'', ''optimizer.pt''])
        (\<lambda>p.
        io_bind (ext ''torch.load'' (\<lambda>w. torch_load env w p))
        (\<lambda>sd.
        set_attr model (\<lambda>m. m\<lparr>optimizer_state_dict := Some sd\<rparr>))))
       (io_return model)"

text \<open>Lines 70 to 74, the EMA state, handled the same way.\<close>

definition internal_ema ::
  "'o env \<Rightarrow> string option \<Rightarrow> 'o StableDiffusionModel option
     \<Rightarrow> 'o StableDiffusionModel option io" where
  "internal_ema env base_model_name model =
     io_except_FileNotFoundError
       (io_bind (py_path_join env base_model_name [''ema'', ''ema.pt''])
        (\<lambda>p.
        io_bind (ext ''torch.load'' (\<lambda>w. torch_load env w p))
        (\<lambda>sd.
        set_attr model (\<lambda>m. m\<lparr>ema_state_dict := Some sd\<rparr>))))
       (io_return model)"

text \<open>Lines 76 to 80: the default configuration file is parsed once more, and the
  training progress is stored.\<close>

definition internal_config_and_progress ::
  "'o env \<Rightarrow> ModelType \<Rightarrow> TrainProgress \<Rightarrow> 'o StableDiffusionModel option
     \<Rightarrow> 'o StableDiffusionModel option io" where
  "internal_config_and_progress env mt tp model =
     io_bind (py_open env (default_yaml_name mt))
     (\<lambda>f.
     io_bind (ext ''yaml.safe_load'' (\<lambda>w. yaml_safe_load env w f))
     (\<lambda>cfg.
     io_bind (set_attr model (\<lambda>m. m\<lparr>sd_config := cfg\<rparr>))
     (\<lambda>model1.
     set_attr model1 (\<lambda>m. m\<lparr>train_progress := Some tp\<rparr>))))"

text \<open>Lines 82 to 88, the model spec: a fresh \<^verbatim>\<open>ModelSpec()\<close> is stored first, then
  \<^verbatim>\<open>model_spec.json\<close> is read under a bare except.\<close>

definition internal_model_spec ::
  "'o env \<Rightarrow> string option \<Rightarrow> 'o StableDiffusionModel option
     \<Rightarrow> 'o StableDiffusionModel option io" where
  "internal_model_spec env base_model_name model =
     io_bind (set_attr model (\<lambda>m. m\<lparr>model_spec := Some (ModelSpec_new env)\<rparr>))
     (\<lambda>model1.
     io_try
       (io_bind (py_path_join env base_model_name [''model_spec.json''])
        (\<lambda>p.
        io_bind (py_open env (Some p))
        (\<lambda>model_spec_file.
        io_bind (ext ''json.load'' (\<lambda>w. json_load env w model_spec_file))
        (\<lambda>d.
        io_bind (io_lift (ModelSpec_from_dict env d))
        (\<lambda>ms.
        set_attr model1 (\<lambda>m. m\<lparr>model_spec := Some ms\<rparr>))))))
       (\<lambda>e. io_return model1))"

definition load_internal ::
  "'o env \<Rightarrow> ModelType \<Rightarrow> 'o ModelWeightDtypes \<Rightarrow> string option
     \<Rightarrow> 'o StableDiffusionModel option io" where
  "load_internal env mt weight_dtypes base_model_name =
     io_bind (internal_train_progress env base_model_name)
     (\<lambda>tp.
     io_bind (load_diffusers env mt weight_dtypes base_model_name)
     (\<lambda>model.
     io_bind (internal_optimizer env base_model_name model)
     (\<lambda>model1.
     io_bind (internal_ema env base_model_name model1)
     (\<lambda>model2.
     io_bind (internal_config_and_progress env mt tp model2)
     (\<lambda>model3.
     internal_model_spec env base_model_name model3)))))"

subsection \<open>Loading a monolithic checkpoint file\<close>

text \<open>Lines 161 to 165 of \<^verbatim>\<open>__load_ckpt\<close>: the original config file.\<close>

definition ckpt_yaml_name :: "'o env \<Rightarrow> ModelType \<Rightarrow> string option \<Rightarrow> string option io" where
  "ckpt_yaml_name env mt base_model_name =
     io_bind (py_splitext_root env base_model_name)
     (\<lambda>root.
     io_bind (py_exists env (root @ ''.yaml''))
     (\<lambda>found.
     if \<not> found then
       io_bind (py_splitext_root env base_model_name)
       (\<lambda>root2.
       io_bind (py_exists env (root2 @ ''.yml''))
       (\<lambda>found2.
       if \<not> found2 then io_return (default_yaml_name mt)
       else io_return (Some (root2 @ ''.yml''))))
     else io_return (Some (root @ ''.yaml''))))"

text \<open>Lines 167 to 201: the checkpoint is converted with that config file, a DDIM
  scheduler is built, the config file is parsed, and the model is constructed from
  the pipeline's parts, each network converted to its dtype, with a fresh
  \<^verbatim>\<open>ModelSpec()\<close> and no depth objects.\<close>

definition ckpt_from_config ::
  "'o env \<Rightarrow> ModelType \<Rightarrow> 'o ModelWeightDtypes \<Rightarrow> string option \<Rightarrow> string option
     \<Rightarrow> 'o StableDiffusionModel option io" where
  "ckpt_from_config env mt weight_dtypes base_model_name yaml_name =
     io_bind (ext ''download_from_original_stable_diffusion_ckpt''
               (\<lambda>w. download_from_original_stable_diffusion_ckpt env w base_model_name
                      yaml_name False))
     (\<lambda>pipe.
     io_bind (ext ''DDIMScheduler'' (\<lambda>w. DDIMScheduler_init env w))
     (\<lambda>sched.
     io_bind (py_open env yaml_name)
     (\<lambda>f.
     io_bind (ext ''yaml.safe_load'' (\<lambda>w. yaml_safe_load env w f))
     (\<lambda>cfg.
     io_bind (ext ''to'' (\<lambda>w. module_to env w (pipeline_text_encoder pipe)
                                (torch_dtype env (dtype_text_encoder weight_dtypes))))
     (\<lambda>te.
     io_bind (ext ''to'' (\<lambda>w. module_to env w (pipeline_vae pipe)
                                (torch_dtype env (dtype_vae weight_dtypes))))
     (\<lambda>v.
     io_bind (ext ''to'' (\<lambda>w. module_to env w (pipeline_unet pipe)
                                (torch_dtype env (dtype_unet weight_dtypes))))
     (\<lambda>u.
     io_return (Some (StableDiffusionModel_init mt (pipeline_tokenizer pipe) sched te v u
                        None None cfg (ModelSpec_new env))))))))))"

definition load_ckpt ::
  "'o env \<Rightarrow> ModelType \<Rightarrow> 'o ModelWeightDtypes \<Rightarrow> string option
     \<Rightarrow> 'o StableDiffusionModel option io" where
  "load_ckpt env mt weight_dtypes base_model_name =
     io_bind (ckpt_yaml_name env mt base_model_name)
     (\<lambda>yaml_name. ckpt_from_config env mt weight_dtypes base_model_name yaml_name)"

subsection \<open>Loading a safetensors file\<close>

text \<open>Lines 209 to 213 of \<^verbatim>\<open>__load_safetensors\<close>: the original config file.\<close>

definition safetensors_yaml_name ::
  "'o env \<Rightarrow> ModelType \<Rightarrow> string option \<Rightarrow> string option io" where
  "safetensors_yaml_name env mt base_model_name =
     io_bind (py_splitext_root env base_model_name)
     (\<lambda>root.
     io_bind (py_exists env (root @ ''.yaml''))
     (\<lambda>found.
     if \<not> found then
       io_bind (py_splitext_root env base_model_name)
       (\<lambda>root2.
       io_bind (py_exists env (root2 @ ''.yml''))
       (\<lambda>found2.
       if \<not> found2 then io_return (default_yaml_name mt)
       else io_return (Some (root2 @ ''.yml''))))
     else io_return (Some (root @ ''.yaml''))))"

text \<open>Lines 237 to 243, the model spec: \<^verbatim>\<open>ModelSpec()\<close> unless the file's metadata
  holds the key and parses; the metadata is asked for twice, as in the source.\<close>

definition safetensors_model_spec :: "'o env \<Rightarrow> string option \<Rightarrow> 'o io" where
  "safetensors_model_spec env base_model_name =
     io_try
       (io_bind (ext ''safe_open'' (\<lambda>w. safe_open env w base_model_name))
        (\<lambda>f.
        io_bind (ext ''metadata'' (\<lambda>w. metadata env w f))
        (\<lambda>md.
        io_bind (io_lift (py_contains md ''modelspec.sai_model_spec''))
        (\<lambda>present.
        if present then
          io_bind (ext ''metadata'' (\<lambda>w. metadata env w f))
          (\<lambda>md2. io_lift (ModelSpec_from_dict env (metadata_value md2)))
        else io_return (ModelSpec_new env)))))
       (\<lambda>e. io_return (ModelSpec_new env))"

text \<open>Lines 215 to 256, with the config file chosen.\<close>

definition safetensors_from_config ::
  "'o env \<Rightarrow> ModelType \<Rightarrow> 'o ModelWeightDtypes \<Rightarrow> string option \<Rightarrow> string option
     \<Rightarrow> 'o StableDiffusionModel option io" where
  "safetensors_from_config env mt weight_dtypes base_model_name yaml_name =
     io_bind (ext ''download_from_original_stable_diffusion_ckpt''
               (\<lambda>w. download_from_original_stable_diffusion_ckpt env w base_model_name
                      yaml_name True))
     (\<lambda>pipe.
     io_bind (ext ''DDIMScheduler'' (\<lambda>w. DDIMScheduler_init env w))
     (\<lambda>sched.
     io_bind (py_open env yaml_name)
     (\<lambda>f.
     io_bind (ext ''yaml.safe_load'' (\<lambda>w. yaml_safe_load env w f))
     (\<lambda>cfg.
     io_bind (safetensors_model_spec env base_model_name)
     (\<lambda>ms.
     io_bind (ext ''to'' (\<lambda>w. module_to env w (pipeline_text_encoder pipe)
                                (torch_dtype env (dtype_text_encoder weight_dtypes))))
     (\<lambda>te.
     io_bind (ext ''to'' (\<lambda>w. module_to env w (pipeline_vae pipe)
                                (torch_dtype env (dtype_vae weight_dtypes))))
     (\<lambda>v.
     io_bind (ext ''to'' (\<lambda>w. module_to env w (pipeline_unet pipe)
                                (torch_dtype env (dtype_unet weight_dtypes))))
     (\<lambda>u.
     io_return (Some (StableDiffusionModel_init mt (pipeline_tokenizer pipe) sched te v u
                        None None cfg ms))))))))))"

definition load_safetensors ::
  "'o env \<Rightarrow> ModelType \<Rightarrow> 'o ModelWeightDtypes \<Rightarrow> string option
     \<Rightarrow> 'o StableDiffusionModel option io" where
  "load_safetensors env mt weight_dtypes base_model_name =
     io_bind (safetensors_yaml_name env mt base_model_name)
     (\<lambda>yaml_name. safetensors_from_config env mt weight_dtypes base_model_name yaml_name)"

subsection \<open>The fallback chain\<close>

text \<open>One \<^verbatim>\<open>try\<close> block of \<^verbatim>\<open>load\<close>: the strategy is run; a model that is not
  \<^verbatim>\<open>None\<close> is returned from \<^verbatim>\<open>load\<close> (\<open>Inl\<close>); otherwise \<^verbatim>\<open>load\<close> goes on
  (\<open>Inr\<close>) with the list of stack traces, to which the formatted exception has been
  appended if the strategy raised.\<close>

definition attempt ::
  "'o env \<Rightarrow> 'm option io \<Rightarrow> string list \<Rightarrow> ('m + string list) io" where
  "attempt env strategy stacktraces =
     io_try
       (io_bind strategy
        (\<lambda>model. case model of
                    Some m \<Rightarrow> io_return (Inl m)
                  | None \<Rightarrow> io_return (Inr stacktraces)))
       (\<lambda>e. io_return (Inr (stacktraces @ [format_exc env e])))"

text \<open>The loop over the collected stack traces.\<close>

fun print_all :: "string list \<Rightarrow> unit io" where
  "print_all [] = io_return ()"
| "print_all (s # ss) = io_bind (py_print s) (\<lambda>u. print_all ss)"

text \<open>The exception that the last line raises: concatenating a string and
  \<^verbatim>\<open>None\<close> raises TypeError before the exception object exists.\<close>

definition could_not_load_error :: "string option \<Rightarrow> exn" where
  "could_not_load_error base_model_name =
     (case base_model_name of
        None \<Rightarrow> TypeError ''can only concatenate str (not NoneType) to str''
      | Some name \<Rightarrow> Exception (''could not load model: '' @ name))"

definition load ::
  "'o env \<Rightarrow> ModelType \<Rightarrow> 'o ModelWeightDtypes \<Rightarrow> string option \<Rightarrow> string option
     \<Rightarrow> 'o StableDiffusionModel option io" where
  "load env mt weight_dtypes base_model_name extra_model_name =
     io_bind (attempt env (load_internal env mt weight_dtypes base_model_name) [])
     (\<lambda>r1. case r1 of Inl model \<Rightarrow> io_return (Some model) | Inr stacktraces1 \<Rightarrow>
     io_bind (attempt env (load_diffusers env mt weight_dtypes base_model_name) stacktraces1)
     (\<lambda>r2. case r2 of Inl model \<Rightarrow> io_return (Some model) | Inr stacktraces2 \<Rightarrow>
     io_bind (attempt env (load_safetensors env mt weight_dtypes base_model_name) stacktraces2)
     (\<lambda>r3. case r3 of Inl model \<Rightarrow> io_return (Some model) | Inr stacktraces3 \<Rightarrow>
     io_bind (attempt env (load_ckpt env mt weight_dtypes base_model_name) stacktraces3)
     (\<lambda>r4. case r4 of Inl model \<Rightarrow> io_return (Some model) | Inr stacktraces4 \<Rightarrow>
     io_bind (print_all stacktraces4)
     (\<lambda>u. io_raise (could_not_load_error base_model_name))))))"

subsection \<open>What the fallback chain is meant to compute\<close>

text \<open>
  The specification's words, "pick the first strategy that succeeds": the
  strategies are run in the order of the list, each in the world the one before
  left behind; the first that returns a model that is not \<^verbatim>\<open>None\<close> gives the
  result and the final world, and no later strategy is run.
\<close>

fun first_success :: "'m option io list \<Rightarrow> world \<Rightarrow> ('m \<times> world) option" where
  "first_success [] w = None"
| "first_success (s # ss) w =
     (case s w of
        (Inr (Some m), w1) \<Rightarrow> Some (m, w1)
      | (r, w1) \<Rightarrow> first_success ss w1)"

text \<open>The same run, keeping the stack traces of the strategies that raised: the
  state of \<^verbatim>\<open>load\<close> after its \<^verbatim>\<open>try\<close> blocks.\<close>

fun chain ::
  "'o env \<Rightarrow> 'm option io list \<Rightarrow> string list \<Rightarrow> world \<Rightarrow> ('m + string list) \<times> world" where
  "chain env [] st w = (Inr st, w)"
| "chain env (S # Ss) st w =
     (case S w of
        (Inr (Some m), w1) \<Rightarrow> (Inl m, w1)
      | (Inr None, w1) \<Rightarrow> chain env Ss st w1
      | (Inl e, w1) \<Rightarrow> chain env Ss (st @ [format_exc env e]) w1)"

fun finish ::
  "string option \<Rightarrow> ('m + string list) \<times> world \<Rightarrow> (exn + 'm option) \<times> world" where
  "finish b (Inl m, w) = (Inr (Some m), w)"
| "finish b (Inr st, w) = (Inl (could_not_load_error b), w @ map Print st)"


text \<open>The fallback chain for the original config file, in the specification's words:
  the sidecar file with extension \<^verbatim>\<open>.yaml\<close> if it exists, else the one with extension
  \<^verbatim>\<open>.yml\<close> if it exists, else the model type's default; with the world after the one or
  two existence tests.\<close>

definition config_file_choice :: "'o env \<Rightarrow> ModelType \<Rightarrow> string \<Rightarrow> world \<Rightarrow> string option \<times> world" where
  "config_file_choice env mt b w =
     (if os_path_exists env w (fst (os_path_splitext env b) @ ''.yaml'')
      then (Some (fst (os_path_splitext env b) @ ''.yaml''), w @ [Call ''os.path.exists''])
      else if os_path_exists env (w @ [Call ''os.path.exists''])
                (fst (os_path_splitext env b) @ ''.yml'')
      then (Some (fst (os_path_splitext env b) @ ''.yml''),
            w @ [Call ''os.path.exists'', Call ''os.path.exists''])
      else (default_yaml_name mt, w @ [Call ''os.path.exists'', Call ''os.path.exists'']))"

subsection \<open>A concrete environment\<close>

text \<open>
  An environment to run the loader in: POSIX path functions, and a disk
  described by the model directories \<^verbatim>\<open>from_pretrained\<close> accepts, the files that
  exist with their parsed contents, the checkpoint files with the format each one
  has (\<open>True\<close> for safetensors), and the metadata of the safetensors files.
  Library objects are strings that name them.
\<close>

definition posix_join :: "string \<Rightarrow> string list \<Rightarrow> string" where
  "posix_join a ps =
     foldl (\<lambda>acc p. if p \<noteq> [] \<and> hd p = CHR ''/'' then p
                     else if acc = [] \<or> last acc = CHR ''/'' then acc @ p
                     else acc @ ''/'' @ p) a ps"

definition posix_splitext :: "string \<Rightarrow> string \<times> string" where
  "posix_splitext p =
     (let name = rev (takeWhile (\<lambda>c. c \<noteq> CHR ''/'') (rev p));
          suffix = rev (takeWhile (\<lambda>c. c \<noteq> CHR ''.'') (rev name));
          stem = take (length name - length suffix - 1) name
      in if CHR ''.'' \<in> set name \<and> filter (\<lambda>c. c \<noteq> CHR ''.'') stem \<noteq> []
         then (take (length p - length suffix - 1) p, drop (length p - length suffix - 1) p)
         else (p, []))"

fun exn_text :: "exn \<Rightarrow> string" where
  "exn_text (FileNotFoundError s) = ''FileNotFoundError: '' @ s"
| "exn_text (TypeError s) = ''TypeError: '' @ s"
| "exn_text (KeyError s) = ''KeyError: '' @ s"
| "exn_text (AttributeError s) = ''AttributeError: '' @ s"
| "exn_text (Exception s) = ''Exception: '' @ s"
| "exn_text (OtherError s) = ''Error: '' @ s"

definition demo_env ::
  "string option list \<Rightarrow> (string \<times> pyval) list \<Rightarrow> (string \<times> bool) list
     \<Rightarrow> (string \<times> (string \<times> string) list) list \<Rightarrow> string env" where
  "demo_env model_dirs files checkpoints metas =
     \<lparr> os_path_join = posix_join,
       os_path_splitext = posix_splitext,
       format_exc = exn_text,
       has_depth_input = (\<lambda>mt. mt = STABLE_DIFFUSION_20_DEPTH),
       torch_dtype = (\<lambda>d. d),
       ModelSpec_new = ''ModelSpec()'',
       ModelSpec_from_dict = (\<lambda>d. case d of
                                 PyDict kvs \<Rightarrow> Inr ''ModelSpec.from_dict''
                               | _ \<Rightarrow> Inl (AttributeError ''object has no attribute get'')),
       os_path_exists = (\<lambda>w p. p \<in> set (map fst files)),
       open_r = (\<lambda>w p. if p \<in> set (map fst files) then Inr p else Inl (FileNotFoundError p)),
       json_load = (\<lambda>w f. case map_of files f of
                             Some v \<Rightarrow> Inr v
                           | None \<Rightarrow> Inl (OtherError ''not an open file'')),
       yaml_safe_load = (\<lambda>w f. case map_of files f of
                                  Some v \<Rightarrow> Inr v
                                | None \<Rightarrow> Inl (OtherError ''not an open file'')),
       torch_load = (\<lambda>w p. if p \<in> set (map fst files) then Inr p else Inl (FileNotFoundError p)),
       CLIPTokenizer_from_pretrained =
         (\<lambda>w name sub. if name \<in> set model_dirs then Inr sub else Inl (OtherError ''no such model'')),
       DDIMScheduler_from_pretrained =
         (\<lambda>w name sub. if name \<in> set model_dirs then Inr sub else Inl (OtherError ''no such model'')),
       CLIPTextModel_from_pretrained =
         (\<lambda>w name sub d. if name \<in> set model_dirs then Inr sub else Inl (OtherError ''no such model'')),
       AutoencoderKL_from_pretrained =
         (\<lambda>w name sub d. if name \<in> set model_dirs then Inr sub else Inl (OtherError ''no such model'')),
       UNet2DConditionModel_from_pretrained =
         (\<lambda>w name sub d. if name \<in> set model_dirs then Inr sub else Inl (OtherError ''no such model'')),
       DPTImageProcessor_from_pretrained =
         (\<lambda>w name sub. if name \<in> set model_dirs then Inr sub else Inl (OtherError ''no such model'')),
       DPTForDepthEstimation_from_pretrained =
         (\<lambda>w name sub d. if name \<in> set model_dirs then Inr sub else Inl (OtherError ''no such model'')),
       download_from_original_stable_diffusion_ckpt =
         (\<lambda>w ckpt cfg from_safetensors.
            case ckpt of
              None \<Rightarrow> Inl (TypeError ''checkpoint path is None'')
            | Some c \<Rightarrow>
                if (c, from_safetensors) \<in> set checkpoints
                then Inr \<lparr> pipeline_tokenizer = ''tokenizer'', pipeline_text_encoder = ''text_encoder'',
                           pipeline_vae = ''vae'', pipeline_unet = ''unet'' \<rparr>
                else Inl (OtherError ''not a checkpoint of this format'')),
       DDIMScheduler_init = (\<lambda>w. Inr ''DDIMScheduler''),
       module_to = (\<lambda>w m d. Inr m),
       safe_open = (\<lambda>w name.
                      case name of
                        None \<Rightarrow> Inl (TypeError ''file name is None'')
                      | Some c \<Rightarrow> if (c, True) \<in> set checkpoints then Inr c
                                  else Inl (OtherError ''not a safetensors file'')),
       metadata = (\<lambda>w f. Inr (map_of metas f)) \<rparr>"

definition demo_dtypes :: "string ModelWeightDtypes" where
  "demo_dtypes = \<lparr> dtype_text_encoder = ''FLOAT_32'', dtype_vae = ''FLOAT_32'',
                   dtype_unet = ''FLOAT_16'' \<rparr>"

text \<open>A directory in the trainer's own format, with an EMA state and no optimizer
  state.\<close>

definition demo_run_dir :: "(string \<times> pyval) list" where
  "demo_run_dir =
     [(''resources/diffusers_model_config/v1-inference.yaml'', PyDict []),
      (''run1/meta.json'',
         PyDict [(''train_progress'',
                  PyDict [(''epoch'', PyInt 3), (''epoch_step'', PyInt 0),
                          (''epoch_sample'', PyInt 0), (''global_step'', PyInt 120)])]),
      (''run1/ema/ema.pt'', PyNone)]"

section \<open>Lemmas on the effects\<close>

lemma io_bindE:
  assumes "io_bind m f w = (Inr y, w')"
  obtains x w1 where "m w = (Inr x, w1)" and "f x w1 = (Inr y, w')"
  using assms by (auto simp: io_bind_def split: prod.splits sum.splits)

lemma io_return_eq [simp]: "io_return x w = (r, w') \<longleftrightarrow> r = Inr x \<and> w' = w"
  by (auto simp: io_return_def)

lemma set_attr_result:
  "set_attr model upd w = (Inr r, w') \<Longrightarrow> \<exists>m. model = Some m \<and> r = Some (upd m) \<and> w' = w"
  by (cases model) (auto simp: set_attr_def io_raise_def)

lemma print_all_result: "print_all st w = (Inr (), w @ map Print st)"
  by (induction st arbitrary: w) (simp_all add: io_return_def io_bind_def py_print_def)

section \<open>What a strategy returns\<close>

text \<open>A strategy that returns at all returns a model, never \<^verbatim>\<open>None\<close>, and the
  model carries a model spec.\<close>

lemma load_diffusers_result:
  assumes "load_diffusers env mt wd b w = (Inr r, w')"
  shows "\<exists>m. r = Some m \<and> model_spec m = Some (ModelSpec_new env)"
  using assms unfolding load_diffusers_def
  by (elim io_bindE) (auto simp: StableDiffusionModel_init_def)

lemma load_ckpt_result:
  assumes "load_ckpt env mt wd b w = (Inr r, w')"
  shows "\<exists>m. r = Some m \<and> model_spec m = Some (ModelSpec_new env)"
  using assms unfolding load_ckpt_def ckpt_from_config_def
  by (elim io_bindE) (auto simp: StableDiffusionModel_init_def)

lemma load_safetensors_result:
  assumes "load_safetensors env mt wd b w = (Inr r, w')"
  shows "\<exists>m ms. r = Some m \<and> model_spec m = Some ms"
  using assms unfolding load_safetensors_def safetensors_from_config_def
  by (elim io_bindE) (auto simp: StableDiffusionModel_init_def)

lemma internal_model_spec_result:
  assumes "internal_model_spec env b model w = (Inr r, w')"
  shows "\<exists>m ms. r = Some m \<and> model_spec m = Some ms"
proof -
  from assms obtain model1 w1 where
    s: "set_attr model (\<lambda>m. m\<lparr>model_spec := Some (ModelSpec_new env)\<rparr>) w = (Inr model1, w1)"
    and t: "io_try
       (io_bind (py_path_join env b [''model_spec.json''])
        (\<lambda>p.
        io_bind (py_open env (Some p))
        (\<lambda>model_spec_file.
        io_bind (ext ''json.load'' (\<lambda>w. json_load env w model_spec_file))
        (\<lambda>d.
        io_bind (io_lift (ModelSpec_from_dict env d))
        (\<lambda>ms.
        set_attr model1 (\<lambda>m. m\<lparr>model_spec := Some ms\<rparr>))))))
       (\<lambda>e. io_return model1) w1 = (Inr r, w')"
    unfolding internal_model_spec_def by (elim io_bindE)
  from s obtain m0 where m1: "model1 = Some (m0\<lparr>model_spec := Some (ModelSpec_new env)\<rparr>)"
    by (auto dest: set_attr_result)
  show ?thesis using t unfolding io_try_def m1
    by (auto split: prod.splits sum.splits elim!: io_bindE dest!: set_attr_result)
qed

lemma load_internal_result:
  assumes "load_internal env mt wd b w = (Inr r, w')"
  shows "\<exists>m ms. r = Some m \<and> model_spec m = Some ms"
  using assms unfolding load_internal_def
  by (elim io_bindE) (rule internal_model_spec_result)

section \<open>The fallback chain, step by step\<close>

lemma attempt_cases:
  "attempt env S st w =
     (case S w of
        (Inr (Some m), w1) \<Rightarrow> (Inr (Inl m), w1)
      | (Inr None, w1) \<Rightarrow> (Inr (Inr st), w1)
      | (Inl e, w1) \<Rightarrow> (Inr (Inr (st @ [format_exc env e])), w1))"
  by (simp add: attempt_def io_try_def io_bind_def io_return_def
           split: prod.splits sum.splits option.splits)

lemma finish_Nil:
  "io_bind (print_all st) (\<lambda>u. io_raise (could_not_load_error b)) w
   = finish b (chain env [] st w)"
  by (simp add: io_bind_def print_all_result io_raise_def)

lemma finish_Cons:
  assumes "\<And>st w. K st w = finish b (chain env Ss st w)"
  shows "io_bind (attempt env S st)
           (\<lambda>r. case r of Inl model \<Rightarrow> io_return (Some model) | Inr st' \<Rightarrow> K st') w
         = finish b (chain env (S # Ss) st w)"
  by (simp add: io_bind_def attempt_cases assms io_return_def
           split: prod.splits sum.splits option.splits)

lemma load_chain:
  "load env mt wd b x w =
     finish b (chain env [load_internal env mt wd b, load_diffusers env mt wd b,
                          load_safetensors env mt wd b, load_ckpt env mt wd b] [] w)"
  unfolding load_def
  by (rule finish_Cons finish_Nil)+

lemma finish_success:
  "finish b r = (Inr (Some m), w') \<longleftrightarrow> r = (Inl m, w')"
  by (cases "(b, r)" rule: finish.cases) auto

lemma chain_first_success:
  "chain env Ss st w = (Inl m, w') \<longleftrightarrow> first_success Ss w = Some (m, w')"
  by (induction Ss arbitrary: st w) (auto split: prod.splits sum.splits option.splits)

lemma chain_Cons_raised:
  assumes "chain env (S # Ss) st w = (Inr st', w')"
    and "\<And>r w1. S w = (Inr r, w1) \<Longrightarrow> r \<noteq> None"
  obtains e w1 where "S w = (Inl e, w1)"
    and "chain env Ss (st @ [format_exc env e]) w1 = (Inr st', w')"
proof (cases "S w")
  case (Pair r w1)
  show ?thesis
  proof (cases r)
    case (Inl e)
    with Pair assms(1) that show ?thesis by simp
  next
    case (Inr v)
    with Pair assms(2) obtain m where "v = Some m" by (cases v) auto
    with Pair Inr assms(1) show ?thesis by simp
  qed
qed

lemma chain_single_raised:
  assumes "chain env [S] st w = (Inr st', w')"
    and "\<And>r w1. S w = (Inr r, w1) \<Longrightarrow> r \<noteq> None"
  obtains e where "S w = (Inl e, w')" and "st' = st @ [format_exc env e]"
  using assms(1) by (rule chain_Cons_raised) (use assms(2) in auto)

lemma finish_raised:
  "finish b r = (Inl e, w') \<longleftrightarrow>
     (\<exists>st w4. r = (Inr st, w4) \<and> w' = w4 @ map Print st \<and> e = could_not_load_error b)"
  by (cases "(b, r)" rule: finish.cases) auto

lemma load_diffusers_not_None: "load_diffusers env mt wd b w = (Inr r, w1) \<Longrightarrow> r \<noteq> None"
  by (auto dest: load_diffusers_result)

lemma load_internal_not_None: "load_internal env mt wd b w = (Inr r, w1) \<Longrightarrow> r \<noteq> None"
  by (auto dest: load_internal_result)

lemma load_safetensors_not_None: "load_safetensors env mt wd b w = (Inr r, w1) \<Longrightarrow> r \<noteq> None"
  by (auto dest: load_safetensors_result)

lemma load_ckpt_not_None: "load_ckpt env mt wd b w = (Inr r, w1) \<Longrightarrow> r \<noteq> None"
  by (auto dest: load_ckpt_result)

lemma load_raises_only_if_all_raise:
  assumes "load env mt wd b x w = (Inl e, w')"
  shows "\<exists>e1 w1 e2 w2 e3 w3 e4 w4.
          load_internal env mt wd b w = (Inl e1, w1)
        \<and> load_diffusers env mt wd b w1 = (Inl e2, w2)
        \<and> load_safetensors env mt wd b w2 = (Inl e3, w3)
        \<and> load_ckpt env mt wd b w3 = (Inl e4, w4)
        \<and> w' = w4 @ [Print (format_exc env e1), Print (format_exc env e2),
                      Print (format_exc env e3), Print (format_exc env e4)]
        \<and> e = could_not_load_error b"
proof -
  from assms obtain st w4 where
    c: "chain env [load_internal env mt wd b, load_diffusers env mt wd b,
                   load_safetensors env mt wd b, load_ckpt env mt wd b] [] w = (Inr st, w4)"
    and w': "w' = w4 @ map Print st" and r: "e = could_not_load_error b"
    using assms unfolding load_chain finish_raised by blast
  from c obtain e1 w1 where s1: "load_internal env mt wd b w = (Inl e1, w1)"
    and c1: "chain env [load_diffusers env mt wd b, load_safetensors env mt wd b,
                        load_ckpt env mt wd b] ([] @ [format_exc env e1]) w1 = (Inr st, w4)"
    by (rule chain_Cons_raised) (rule load_internal_not_None)
  from c1 obtain e2 w2 where s2: "load_diffusers env mt wd b w1 = (Inl e2, w2)"
    and c2: "chain env [load_safetensors env mt wd b, load_ckpt env mt wd b]
                (([] @ [format_exc env e1]) @ [format_exc env e2]) w2 = (Inr st, w4)"
    by (rule chain_Cons_raised) (rule load_diffusers_not_None)
  from c2 obtain e3 w3 where s3: "load_safetensors env mt wd b w2 = (Inl e3, w3)"
    and c3: "chain env [load_ckpt env mt wd b]
                ((([] @ [format_exc env e1]) @ [format_exc env e2]) @ [format_exc env e3]) w3
             = (Inr st, w4)"
    by (rule chain_Cons_raised) (rule load_safetensors_not_None)
  from c3 obtain e4 where s4: "load_ckpt env mt wd b w3 = (Inl e4, w4)"
    and "st = ((([] @ [format_exc env e1]) @ [format_exc env e2]) @ [format_exc env e3])
                @ [format_exc env e4]"
    by (rule chain_single_raised) (rule load_ckpt_not_None)
  then have "st = [format_exc env e1, format_exc env e2, format_exc env e3, format_exc env e4]"
    by simp
  with s1 s2 s3 s4 w' r show ?thesis by simp
qed

lemma load_raises_if_all_raise:
  assumes "load_internal env mt wd b w = (Inl e1, w1)"
    and "load_diffusers env mt wd b w1 = (Inl e2, w2)"
    and "load_safetensors env mt wd b w2 = (Inl e3, w3)"
    and "load_ckpt env mt wd b w3 = (Inl e4, w4)"
  shows "load env mt wd b x w =
           (Inl (could_not_load_error b),
            w4 @ [Print (format_exc env e1), Print (format_exc env e2),
                  Print (format_exc env e3), Print (format_exc env e4)])"
  using assms by (simp add: load_chain)

lemma load_raises_iff:
  "load env mt wd b x w = (Inl e, w') \<longleftrightarrow>
     (\<exists>e1 w1 e2 w2 e3 w3 e4 w4.
          load_internal env mt wd b w = (Inl e1, w1)
        \<and> load_diffusers env mt wd b w1 = (Inl e2, w2)
        \<and> load_safetensors env mt wd b w2 = (Inl e3, w3)
        \<and> load_ckpt env mt wd b w3 = (Inl e4, w4)
        \<and> w' = w4 @ [Print (format_exc env e1), Print (format_exc env e2),
                      Print (format_exc env e3), Print (format_exc env e4)]
        \<and> e = could_not_load_error b)"
  (is "?L \<longleftrightarrow> ?R")
proof
  assume ?L
  then show ?R by (rule load_raises_only_if_all_raise)
next
  assume ?R
  then obtain e1 w1 e2 w2 e3 w3 e4 w4 where
    a: "load_internal env mt wd b w = (Inl e1, w1)"
       "load_diffusers env mt wd b w1 = (Inl e2, w2)"
       "load_safetensors env mt wd b w2 = (Inl e3, w3)"
       "load_ckpt env mt wd b w3 = (Inl e4, w4)"
    and w': "w' = w4 @ [Print (format_exc env e1), Print (format_exc env e2),
                      Print (format_exc env e3), Print (format_exc env e4)]"
    and r: "e = could_not_load_error b"
    by (elim exE conjE) (rule that)
  from load_raises_if_all_raise [OF a] w' r show ?L
    by simp
qed

lemma first_success_returned:
  "first_success Ss w = Some (m, w') \<Longrightarrow> \<exists>S w0. S \<in> set Ss \<and> S w0 = (Inr (Some m), w')"
proof (induction Ss arbitrary: w)
  case Nil
  then show ?case by simp
next
  case (Cons S Ss)
  obtain r w1 where S: "S w = (r, w1)" by (cases "S w")
  show ?case
  proof (cases "\<exists>m1. r = Inr (Some m1)")
    case True
    with S Cons.prems have "S w = (Inr (Some m), w')" by auto
    then show ?thesis by auto
  next
    case False
    with S Cons.prems have "first_success Ss w1 = Some (m, w')"
      by (auto split: sum.splits option.splits)
    from Cons.IH [OF this] show ?thesis by auto
  qed
qed





lemma load_result:
  assumes "load env mt wd b x w = (Inr r, w')"
  shows "\<exists>m ms. r = Some m \<and> model_spec m = Some ms"
proof -
  from assms obtain m where r: "r = Some m"
    and "chain env [load_internal env mt wd b, load_diffusers env mt wd b,
                   load_safetensors env mt wd b, load_ckpt env mt wd b] [] w = (Inl m, w')"
    unfolding load_chain
    by (cases "(b, chain env [load_internal env mt wd b, load_diffusers env mt wd b,
                   load_safetensors env mt wd b, load_ckpt env mt wd b] [] w)" rule: finish.cases)
       auto
  then have "first_success [load_internal env mt wd b, load_diffusers env mt wd b,
                   load_safetensors env mt wd b, load_ckpt env mt wd b] w = Some (m, w')"
    by (simp only: chain_first_success)
  then obtain S w0 where "S \<in> set [load_internal env mt wd b, load_diffusers env mt wd b,
                   load_safetensors env mt wd b, load_ckpt env mt wd b]"
    and "S w0 = (Inr (Some m), w')"
    by (blast dest: first_success_returned)
  then consider "load_internal env mt wd b w0 = (Inr (Some m), w')"
    | "load_diffusers env mt wd b w0 = (Inr (Some m), w')"
    | "load_safetensors env mt wd b w0 = (Inr (Some m), w')"
    | "load_ckpt env mt wd b w0 = (Inr (Some m), w')"
    by auto
  then have "\<exists>ms. model_spec m = Some ms"
  proof cases
    case 1
    then show ?thesis by (auto dest: load_internal_result)
  next
    case 2
    then show ?thesis by (auto dest: load_diffusers_result)
  next
    case 3
    then show ?thesis by (auto dest: load_safetensors_result)
  next
    case 4
    then show ?thesis by (auto dest: load_ckpt_result)
  qed
  with r show ?thesis by simp
qed

section \<open>The original config file\<close>

lemma ckpt_yaml_name_choice:
  "ckpt_yaml_name env mt (Some b) w =
     (Inr (fst (config_file_choice env mt b w)), snd (config_file_choice env mt b w))"
  by (simp add: ckpt_yaml_name_def config_file_choice_def py_splitext_root_def py_exists_def
        io_bind_def io_return_def ext_def)

lemma safetensors_yaml_name_choice:
  "safetensors_yaml_name env mt (Some b) w =
     (Inr (fst (config_file_choice env mt b w)), snd (config_file_choice env mt b w))"
  by (simp add: safetensors_yaml_name_def config_file_choice_def py_splitext_root_def
        py_exists_def io_bind_def io_return_def ext_def)

section \<open>The optimizer and EMA states\<close>

lemma internal_optimizer_cases:
  "internal_optimizer env (Some b) (Some m) w =
     (case torch_load env w (os_path_join env b [''optimizer'', ''optimizer.pt'']) of
        Inl (FileNotFoundError msg) \<Rightarrow> (Inr (Some m), w @ [Call ''torch.load''])
      | Inl e \<Rightarrow> (Inl e, w @ [Call ''torch.load''])
      | Inr sd \<Rightarrow> (Inr (Some (m\<lparr>optimizer_state_dict := Some sd\<rparr>)), w @ [Call ''torch.load'']))"
  by (simp add: internal_optimizer_def io_except_FileNotFoundError_def io_bind_def
        py_path_join_def io_return_def ext_def set_attr_def split: sum.splits exn.splits)

lemma internal_ema_cases:
  "internal_ema env (Some b) (Some m) w =
     (case torch_load env w (os_path_join env b [''ema'', ''ema.pt'']) of
        Inl (FileNotFoundError msg) \<Rightarrow> (Inr (Some m), w @ [Call ''torch.load''])
      | Inl e \<Rightarrow> (Inl e, w @ [Call ''torch.load''])
      | Inr sd \<Rightarrow> (Inr (Some (m\<lparr>ema_state_dict := Some sd\<rparr>)), w @ [Call ''torch.load'']))"
  by (simp add: internal_ema_def io_except_FileNotFoundError_def io_bind_def
        py_path_join_def io_return_def ext_def set_attr_def split: sum.splits exn.splits)

lemma load_diffusers_unset:
  assumes "load_diffusers env mt wd b w = (Inr r, w')"
  shows "\<exists>m. r = Some m \<and> optimizer_state_dict m = None \<and> ema_state_dict m = None"
  using assms unfolding load_diffusers_def
  by (elim io_bindE) (auto simp: StableDiffusionModel_init_def)

lemma internal_config_and_progress_fields:
  assumes "internal_config_and_progress env mt tp (Some m) w = (Inr r, w')"
  shows "\<exists>m'. r = Some m' \<and> optimizer_state_dict m' = optimizer_state_dict m
              \<and> ema_state_dict m' = ema_state_dict m"
  using assms unfolding internal_config_and_progress_def
  by (elim io_bindE) (auto dest!: set_attr_result)

lemma internal_model_spec_fields:
  assumes "internal_model_spec env b (Some m) w = (Inr r, w')"
  shows "\<exists>m'. r = Some m' \<and> optimizer_state_dict m' = optimizer_state_dict m
              \<and> ema_state_dict m' = ema_state_dict m"
  using assms unfolding internal_model_spec_def io_try_def
  by (auto simp: set_attr_def split: prod.splits sum.splits elim!: io_bindE)

lemma load_internal_state_dicts:
  assumes "load_internal env mt wd (Some b) w = (Inr (Some m), w')"
  shows "\<exists>w2. optimizer_state_dict m =
               (case torch_load env w2 (os_path_join env b [''optimizer'', ''optimizer.pt'']) of
                  Inl e \<Rightarrow> None | Inr sd \<Rightarrow> Some sd)
            \<and> ema_state_dict m =
               (case torch_load env (w2 @ [Call ''torch.load''])
                       (os_path_join env b [''ema'', ''ema.pt'']) of
                  Inl e \<Rightarrow> None | Inr sd \<Rightarrow> Some sd)"
proof -
  from assms obtain tp w1 model w2 model1 w3 model2 w4 model3 w5 where
    d: "load_diffusers env mt wd (Some b) w1 = (Inr model, w2)"
    and o: "internal_optimizer env (Some b) model w2 = (Inr model1, w3)"
    and e: "internal_ema env (Some b) model1 w3 = (Inr model2, w4)"
    and c: "internal_config_and_progress env mt tp model2 w4 = (Inr model3, w5)"
    and s: "internal_model_spec env (Some b) model3 w5 = (Inr (Some m), w')"
    unfolding load_internal_def by (elim io_bindE)
  from d obtain m0 where m0: "model = Some m0"
    "optimizer_state_dict m0 = None" "ema_state_dict m0 = None"
    by (auto dest: load_diffusers_unset)
  let ?o = "case torch_load env w2 (os_path_join env b [''optimizer'', ''optimizer.pt'']) of
              Inl e \<Rightarrow> None | Inr sd \<Rightarrow> Some sd"
  from o m0 obtain m1 where m1: "model1 = Some m1"
    "optimizer_state_dict m1 = ?o" "ema_state_dict m1 = None"
    and w3: "w3 = w2 @ [Call ''torch.load'']"
    by (auto simp: internal_optimizer_cases split: sum.splits exn.splits)
  let ?e = "case torch_load env w3 (os_path_join env b [''ema'', ''ema.pt'']) of
              Inl e \<Rightarrow> None | Inr sd \<Rightarrow> Some sd"
  from e m1 obtain m2 where m2: "model2 = Some m2"
    "optimizer_state_dict m2 = ?o" "ema_state_dict m2 = ?e"
    by (auto simp: internal_ema_cases split: sum.splits exn.splits)
  from c m2 obtain m3 where m3: "model3 = Some m3"
    "optimizer_state_dict m3 = ?o" "ema_state_dict m3 = ?e"
    by (auto dest!: internal_config_and_progress_fields)
  from s m3 have "optimizer_state_dict m = ?o" and "ema_state_dict m = ?e"
    by (auto dest!: internal_model_spec_fields)
  with w3 show ?thesis by blast
qed

lemma load_internal_optimizer_raises:
  assumes "internal_train_progress env b w = (Inr tp, w1)"
    and "load_diffusers env mt wd b w1 = (Inr model, w2)"
    and "internal_optimizer env b model w2 = (Inl e, w3)"
  shows "load_internal env mt wd b w = (Inl e, w3)"
  using assms by (simp add: load_internal_def io_bind_def)

lemma load_internal_ema_raises:
  assumes "internal_train_progress env b w = (Inr tp, w1)"
    and "load_diffusers env mt wd b w1 = (Inr model, w2)"
    and "internal_optimizer env b model w2 = (Inr model1, w3)"
    and "internal_ema env b model1 w3 = (Inl e, w4)"
  shows "load_internal env mt wd b w = (Inl e, w4)"
  using assms by (simp add: load_internal_def io_bind_def)


section \<open>The model spec\<close>





section \<open>A base model name that is None, and the final exception\<close>






lemma load_never_returns_None: "load env mt wd name x w \<noteq> (Inr None, w')"
proof
  assume "load env mt wd name x w = (Inr None, w')"
  then show False
    unfolding load_chain
    by (cases "(name, chain env [load_internal env mt wd name, load_diffusers env mt wd name,
                   load_safetensors env mt wd name, load_ckpt env mt wd name] [] w)"
          rule: finish.cases) auto
qed

section \<open>Running the loader on the concrete environment\<close>

text \<open>The equations that evaluate a run.\<close>

lemmas run_defs =
  attempt_def load_internal_def load_diffusers_def load_safetensors_def load_ckpt_def
  internal_train_progress_def internal_optimizer_def internal_ema_def
  internal_config_and_progress_def internal_model_spec_def
  ckpt_yaml_name_def ckpt_from_config_def safetensors_yaml_name_def safetensors_from_config_def
  safetensors_model_spec_def could_not_load_error_def
  io_bind_def io_return_def io_raise_def io_lift_def io_try_def io_except_FileNotFoundError_def
  ext_def py_print_def py_path_join_def py_splitext_root_def py_open_def py_exists_def
  set_attr_def py_contains_def metadata_value_def StableDiffusionModel_init_def
  demo_env_def demo_dtypes_def posix_join_def posix_splitext_def

section \<open>Properties\<close>

text \<open>
  C4. The default configuration file is a fixed table on the model type: each of
  the eight Stable Diffusion types has its file under
  \<^verbatim>\<open>resources/diffusers_model_config/\<close>, the 2.0 and 2.1 types share
  \<^verbatim>\<open>v2-inference-v.yaml\<close>, their base variants share \<^verbatim>\<open>v2-inference.yaml\<close>, and
  every other model type has none.
\<close>

theorem default_yaml_name_table:
  "default_yaml_name STABLE_DIFFUSION_15 = Some ''resources/diffusers_model_config/v1-inference.yaml''
   \<and> default_yaml_name STABLE_DIFFUSION_15_INPAINTING = Some ''resources/diffusers_model_config/v1-inpainting-inference.yaml''
   \<and> default_yaml_name STABLE_DIFFUSION_20 = Some ''resources/diffusers_model_config/v2-inference-v.yaml''
   \<and> default_yaml_name STABLE_DIFFUSION_21 = Some ''resources/diffusers_model_config/v2-inference-v.yaml''
   \<and> default_yaml_name STABLE_DIFFUSION_20_BASE = Some ''resources/diffusers_model_config/v2-inference.yaml''
   \<and> default_yaml_name STABLE_DIFFUSION_21_BASE = Some ''resources/diffusers_model_config/v2-inference.yaml''
   \<and> default_yaml_name STABLE_DIFFUSION_20_INPAINTING = Some ''resources/diffusers_model_config/v2-inpainting-inference.yaml''
   \<and> default_yaml_name STABLE_DIFFUSION_20_DEPTH = Some ''resources/diffusers_model_config/v2-midas-inference.yaml''
   \<and> (\<forall>name. default_yaml_name (OTHER_MODEL_TYPE name) = None)"
  by simp

text \<open>
  C1. For every model type, weight dtypes and base model name, \<open>load\<close> runs the
  four strategies in the order internal, diffusers, safetensors, ckpt, and returns
  the model of the first one that returns a model that is not \<^verbatim>\<open>None\<close>; the world
  it leaves is the world that strategy left, so no later strategy is attempted.
\<close>

theorem load_first_success:
  "load env mt wd b x w = (Inr (Some m), w') \<longleftrightarrow>
   first_success [load_internal env mt wd b, load_diffusers env mt wd b,
                  load_safetensors env mt wd b, load_ckpt env mt wd b] w = Some (m, w')"
  unfolding load_chain finish_success by (rule chain_first_success)

theorem load_first_success_witness:
  "load (demo_env [Some ''sd15'']
           [(''resources/diffusers_model_config/v1-inference.yaml'', PyDict [])] [] [])
     STABLE_DIFFUSION_15 demo_dtypes (Some ''sd15'') None []
   = (Inr (Some \<lparr> model_type = STABLE_DIFFUSION_15, tokenizer = ''tokenizer'',
           noise_scheduler = ''scheduler'', text_encoder = ''text_encoder'',
           vae = ''vae'', unet = ''unet'', image_depth_processor = None,
           depth_estimator = None, sd_config = PyDict [],
           model_spec = Some ''ModelSpec()'', optimizer_state_dict = None,
           ema_state_dict = None, train_progress = None \<rparr>),
      [Call ''open'', Call ''CLIPTokenizer.from_pretrained'',
       Call ''DDIMScheduler.from_pretrained'', Call ''CLIPTextModel.from_pretrained'',
       Call ''AutoencoderKL.from_pretrained'', Call ''UNet2DConditionModel.from_pretrained'',
       Call ''open'', Call ''yaml.safe_load''])"
  unfolding load_first_success
  by (simp add: run_defs)

text \<open>
  C2. When all four strategies fail, \<open>load\<close> is meant to raise an exception with
  the message \<^verbatim>\<open>could not load model: \<close> followed by the base model name, and it
  never returns \<^verbatim>\<open>None\<close>. For a name that is a string it does so (the lemmas
  \<open>load_raises_could_not_load\<close> and \<open>load_never_returns_None\<close>). For the name
  \<^verbatim>\<open>None\<close>, which the signature of \<open>load\<close> admits, the run below ends in the
  TypeError of the string concatenation instead.
\<close>

theorem load_None_name_raises_TypeError:
  "load (demo_env [] [] [] []) STABLE_DIFFUSION_21 demo_dtypes None None []
   = (Inl (TypeError ''can only concatenate str (not NoneType) to str''),
      [Call ''CLIPTokenizer.from_pretrained'',
       Print ''TypeError: expected str, bytes or os.PathLike object, not NoneType'',
       Print ''Error: no such model'',
       Print ''TypeError: expected str, bytes or os.PathLike object, not NoneType'',
       Print ''TypeError: expected str, bytes or os.PathLike object, not NoneType''])"
  by (simp add: load_def run_defs)

text \<open>
  C3. Every exception of a strategy is caught, so the next strategy is still
  tried: \<open>load\<close> raises exactly when each of the four strategies raised, each run in
  the world its predecessor left. Then one formatted stack trace per strategy has
  been collected, the four are printed in order after the last strategy's effects,
  and the exception raised is the one of the last line. When a strategy returns a
  model after its predecessors raised, \<open>load\<close> returns that model.
\<close>

theorem load_collects_every_traceback:
  "(load env mt wd b x w = (Inl e, w') \<longleftrightarrow>
     (\<exists>e1 w1 e2 w2 e3 w3 e4 w4.
          load_internal env mt wd b w = (Inl e1, w1)
        \<and> load_diffusers env mt wd b w1 = (Inl e2, w2)
        \<and> load_safetensors env mt wd b w2 = (Inl e3, w3)
        \<and> load_ckpt env mt wd b w3 = (Inl e4, w4)
        \<and> w' = w4 @ [Print (format_exc env e1), Print (format_exc env e2),
                      Print (format_exc env e3), Print (format_exc env e4)]
        \<and> e = could_not_load_error b))
   \<and> (load_internal env mt wd b w = (Inl r1, v1)
        \<and> load_diffusers env mt wd b v1 = (Inr (Some m), v2)
      \<longrightarrow> load env mt wd b x w = (Inr (Some m), v2))
   \<and> (load_internal env mt wd b w = (Inl r1, v1)
        \<and> load_diffusers env mt wd b v1 = (Inl r2, v2)
        \<and> load_safetensors env mt wd b v2 = (Inr (Some m), v3)
      \<longrightarrow> load env mt wd b x w = (Inr (Some m), v3))
   \<and> (load_internal env mt wd b w = (Inl r1, v1)
        \<and> load_diffusers env mt wd b v1 = (Inl r2, v2)
        \<and> load_safetensors env mt wd b v2 = (Inl r3, v3)
        \<and> load_ckpt env mt wd b v3 = (Inr (Some m), v4)
      \<longrightarrow> load env mt wd b x w = (Inr (Some m), v4))"
  using load_raises_iff [of env mt wd b x w e w']
  by (simp add: load_chain)

theorem load_collects_every_traceback_witness:
  "load (demo_env [] [] [] []) STABLE_DIFFUSION_15 demo_dtypes (Some ''m.ckpt'') None []
   = (Inl (Exception ''could not load model: m.ckpt''),
      [Call ''open'', Call ''CLIPTokenizer.from_pretrained'',
       Call ''os.path.exists'', Call ''os.path.exists'',
       Call ''download_from_original_stable_diffusion_ckpt'',
       Call ''os.path.exists'', Call ''os.path.exists'',
       Call ''download_from_original_stable_diffusion_ckpt'',
       Print ''FileNotFoundError: m.ckpt/meta.json'',
       Print ''Error: no such model'',
       Print ''Error: not a checkpoint of this format'',
       Print ''Error: not a checkpoint of this format''])"
proof -
  let ?env = "demo_env [] [] [] []"
  have s1: "load_internal ?env STABLE_DIFFUSION_15 demo_dtypes (Some ''m.ckpt'') []
            = (Inl (FileNotFoundError ''m.ckpt/meta.json''), [Call ''open''])"
    by (simp add: run_defs)
  have s2: "load_diffusers ?env STABLE_DIFFUSION_15 demo_dtypes (Some ''m.ckpt'') [Call ''open'']
            = (Inl (OtherError ''no such model''),
               [Call ''open'', Call ''CLIPTokenizer.from_pretrained''])"
    by (simp add: run_defs)
  have s3: "load_safetensors ?env STABLE_DIFFUSION_15 demo_dtypes (Some ''m.ckpt'')
              [Call ''open'', Call ''CLIPTokenizer.from_pretrained'']
            = (Inl (OtherError ''not a checkpoint of this format''),
               [Call ''open'', Call ''CLIPTokenizer.from_pretrained'',
                Call ''os.path.exists'', Call ''os.path.exists'',
                Call ''download_from_original_stable_diffusion_ckpt''])"
    by (simp add: run_defs)
  have s4: "load_ckpt ?env STABLE_DIFFUSION_15 demo_dtypes (Some ''m.ckpt'')
              [Call ''open'', Call ''CLIPTokenizer.from_pretrained'',
                Call ''os.path.exists'', Call ''os.path.exists'',
                Call ''download_from_original_stable_diffusion_ckpt'']
            = (Inl (OtherError ''not a checkpoint of this format''),
               [Call ''open'', Call ''CLIPTokenizer.from_pretrained'',
                Call ''os.path.exists'', Call ''os.path.exists'',
                Call ''download_from_original_stable_diffusion_ckpt'',
                Call ''os.path.exists'', Call ''os.path.exists'',
                Call ''download_from_original_stable_diffusion_ckpt''])"
    by (simp add: run_defs)
  show ?thesis
    apply (subst load_collects_every_traceback [THEN conjunct1])
    apply (intro exI conjI)
         apply (rule s1)
        apply (rule s2)
       apply (rule s3)
      apply (rule s4)
     apply (simp add: demo_env_def)
    apply (simp add: could_not_load_error_def)
    done
qed

text \<open>
  C5. In the ckpt strategy and in the safetensors strategy alike, the original
  config file is the sidecar file named after the checkpoint with extension
  \<^verbatim>\<open>.yaml\<close> if it exists, otherwise the one with extension \<^verbatim>\<open>.yml\<close> if it exists,
  otherwise the default config file of the model type; the rest of the strategy runs
  with that choice.
\<close>

theorem config_file_fallback_chain:
  "ckpt_yaml_name env mt (Some b) w =
     (Inr (fst (config_file_choice env mt b w)), snd (config_file_choice env mt b w))
   \<and> safetensors_yaml_name env mt (Some b) w =
     (Inr (fst (config_file_choice env mt b w)), snd (config_file_choice env mt b w))
   \<and> load_ckpt env mt wd (Some b) w =
       ckpt_from_config env mt wd (Some b) (fst (config_file_choice env mt b w))
         (snd (config_file_choice env mt b w))
   \<and> load_safetensors env mt wd (Some b) w =
       safetensors_from_config env mt wd (Some b) (fst (config_file_choice env mt b w))
         (snd (config_file_choice env mt b w))"
  by (simp add: load_ckpt_def load_safetensors_def io_bind_def
        ckpt_yaml_name_choice safetensors_yaml_name_choice)

theorem config_file_fallback_chain_witness:
  "ckpt_yaml_name (demo_env [] [(''models/m.yml'', PyDict [])] [(''models/m.ckpt'', False)] [])
      STABLE_DIFFUSION_15 (Some ''models/m.ckpt'') []
   = (Inr (Some ''models/m.yml''), [Call ''os.path.exists'', Call ''os.path.exists''])
   \<and> safetensors_yaml_name (demo_env [] [] [(''models/m.safetensors'', True)] [])
      STABLE_DIFFUSION_20_DEPTH (Some ''models/m.safetensors'') []
   = (Inr (Some ''resources/diffusers_model_config/v2-midas-inference.yaml''),
      [Call ''os.path.exists'', Call ''os.path.exists''])"
  using config_file_fallback_chain
          [of "demo_env [] [(''models/m.yml'', PyDict [])] [(''models/m.ckpt'', False)] []"
              STABLE_DIFFUSION_15 "''models/m.ckpt''" "[]"]
        config_file_fallback_chain
          [of "demo_env [] [] [(''models/m.safetensors'', True)] []"
              STABLE_DIFFUSION_20_DEPTH "''models/m.safetensors''" "[]"]
  by (simp add: config_file_choice_def demo_env_def posix_splitext_def)










text \<open>
  C9. Whatever \<open>load\<close> returns, through any of the four strategies, is a model (not
  \<^verbatim>\<open>None\<close>) whose \<open>model_spec\<close> field is set (not \<^verbatim>\<open>None\<close>), and so is what each
  strategy returns; for the diffusers and ckpt strategies the field holds the fresh
  \<^verbatim>\<open>ModelSpec()\<close>.
\<close>

theorem load_returns_model_with_spec:
  "(load env mt wd b x w = (Inr r, w') \<longrightarrow> (\<exists>m ms. r = Some m \<and> model_spec m = Some ms))
   \<and> (load_internal env mt wd b w = (Inr r, w')
        \<longrightarrow> (\<exists>m ms. r = Some m \<and> model_spec m = Some ms))
   \<and> (load_diffusers env mt wd b w = (Inr r, w')
        \<longrightarrow> (\<exists>m. r = Some m \<and> model_spec m = Some (ModelSpec_new env)))
   \<and> (load_safetensors env mt wd b w = (Inr r, w')
        \<longrightarrow> (\<exists>m ms. r = Some m \<and> model_spec m = Some ms))
   \<and> (load_ckpt env mt wd b w = (Inr r, w')
        \<longrightarrow> (\<exists>m. r = Some m \<and> model_spec m = Some (ModelSpec_new env)))"
  using load_result [of env mt wd b x w r w'] load_internal_result [of env mt wd b w r w']
    load_diffusers_result [of env mt wd b w r w'] load_safetensors_result [of env mt wd b w r w']
    load_ckpt_result [of env mt wd b w r w']
  by blast

theorem load_returns_model_with_spec_witness:
  "\<exists>m. fst (load (demo_env [] [(''m.yml'', PyDict [])] [(''m.safetensors'', True)]
                     [(''m.safetensors'', [(''modelspec.sai_model_spec'', ''1.0.0'')])])
                STABLE_DIFFUSION_15 demo_dtypes (Some ''m.safetensors'') None []) = Inr (Some m)
        \<and> model_spec m = Some ''ModelSpec.from_dict''"
proof -
  let ?run = "load (demo_env [] [(''m.yml'', PyDict [])] [(''m.safetensors'', True)]
                     [(''m.safetensors'', [(''modelspec.sai_model_spec'', ''1.0.0'')])])
                STABLE_DIFFUSION_15 demo_dtypes (Some ''m.safetensors'') None []"
  have r: "fst ?run = Inr (Some \<lparr>model_type = STABLE_DIFFUSION_15, tokenizer = ''tokenizer'',
           noise_scheduler = ''DDIMScheduler'',
           text_encoder = ''text_encoder'', vae = ''vae'', unet = ''unet'',
           image_depth_processor = None, depth_estimator = None,
           sd_config = PyDict [], model_spec = Some ''ModelSpec.from_dict'',
           optimizer_state_dict = None, ema_state_dict = None,
           train_progress = None\<rparr>)"
    by (simp add: load_def run_defs)
  then have "?run = (Inr (Some \<lparr>model_type = STABLE_DIFFUSION_15, tokenizer = ''tokenizer'',
           noise_scheduler = ''DDIMScheduler'',
           text_encoder = ''text_encoder'', vae = ''vae'', unet = ''unet'',
           image_depth_processor = None, depth_estimator = None,
           sd_config = PyDict [], model_spec = Some ''ModelSpec.from_dict'',
           optimizer_state_dict = None, ema_state_dict = None,
           train_progress = None\<rparr>), snd ?run)"
    by (simp add: prod_eq_iff)
  from load_returns_model_with_spec [THEN conjunct1, rule_format, OF this] r show ?thesis
    by simp
qed

text \<open>
  C10. In the internal strategy a missing optimizer or EMA state file is tolerated:
  when \<^verbatim>\<open>torch.load\<close> raises FileNotFoundError the model is left as it was, so the
  field stays unset; any other exception of \<^verbatim>\<open>torch.load\<close> leaves the block and
  makes the strategy raise it; and a model the strategy returns holds each state
  exactly when its file was loaded.
\<close>

theorem missing_optimizer_or_ema_tolerated:
  "internal_optimizer env (Some b) (Some m) w =
     (case torch_load env w (os_path_join env b [''optimizer'', ''optimizer.pt'']) of
        Inl (FileNotFoundError msg) \<Rightarrow> (Inr (Some m), w @ [Call ''torch.load''])
      | Inl e \<Rightarrow> (Inl e, w @ [Call ''torch.load''])
      | Inr sd \<Rightarrow> (Inr (Some (m\<lparr>optimizer_state_dict := Some sd\<rparr>)), w @ [Call ''torch.load'']))
   \<and> internal_ema env (Some b) (Some m) w =
     (case torch_load env w (os_path_join env b [''ema'', ''ema.pt'']) of
        Inl (FileNotFoundError msg) \<Rightarrow> (Inr (Some m), w @ [Call ''torch.load''])
      | Inl e \<Rightarrow> (Inl e, w @ [Call ''torch.load''])
      | Inr sd \<Rightarrow> (Inr (Some (m\<lparr>ema_state_dict := Some sd\<rparr>)), w @ [Call ''torch.load'']))
   \<and> (internal_train_progress env name w = (Inr tp, w1)
        \<and> load_diffusers env mt wd name w1 = (Inr model, w2)
        \<and> internal_optimizer env name model w2 = (Inl e, w3)
      \<longrightarrow> load_internal env mt wd name w = (Inl e, w3))
   \<and> (internal_train_progress env name w = (Inr tp, w1)
        \<and> load_diffusers env mt wd name w1 = (Inr model, w2)
        \<and> internal_optimizer env name model w2 = (Inr model1, w3)
        \<and> internal_ema env name model1 w3 = (Inl e, w4)
      \<longrightarrow> load_internal env mt wd name w = (Inl e, w4))
   \<and> (load_internal env mt wd (Some b) w = (Inr (Some m'), w')
      \<longrightarrow> (\<exists>wo. optimizer_state_dict m' =
               (case torch_load env wo (os_path_join env b [''optimizer'', ''optimizer.pt'']) of
                  Inl e \<Rightarrow> None | Inr sd \<Rightarrow> Some sd)
            \<and> ema_state_dict m' =
               (case torch_load env (wo @ [Call ''torch.load''])
                       (os_path_join env b [''ema'', ''ema.pt'']) of
                  Inl e \<Rightarrow> None | Inr sd \<Rightarrow> Some sd)))"
proof (intro conjI impI)
  show "internal_optimizer env (Some b) (Some m) w =
     (case torch_load env w (os_path_join env b [''optimizer'', ''optimizer.pt'']) of
        Inl (FileNotFoundError msg) \<Rightarrow> (Inr (Some m), w @ [Call ''torch.load''])
      | Inl e \<Rightarrow> (Inl e, w @ [Call ''torch.load''])
      | Inr sd \<Rightarrow> (Inr (Some (m\<lparr>optimizer_state_dict := Some sd\<rparr>)), w @ [Call ''torch.load'']))"
    by (rule internal_optimizer_cases)
  show "internal_ema env (Some b) (Some m) w =
     (case torch_load env w (os_path_join env b [''ema'', ''ema.pt'']) of
        Inl (FileNotFoundError msg) \<Rightarrow> (Inr (Some m), w @ [Call ''torch.load''])
      | Inl e \<Rightarrow> (Inl e, w @ [Call ''torch.load''])
      | Inr sd \<Rightarrow> (Inr (Some (m\<lparr>ema_state_dict := Some sd\<rparr>)), w @ [Call ''torch.load'']))"
    by (rule internal_ema_cases)
  show "load_internal env mt wd name w = (Inl e, w3)"
    if "internal_train_progress env name w = (Inr tp, w1)
        \<and> load_diffusers env mt wd name w1 = (Inr model, w2)
        \<and> internal_optimizer env name model w2 = (Inl e, w3)"
    using that by (auto intro: load_internal_optimizer_raises)
  show "load_internal env mt wd name w = (Inl e, w4)"
    if "internal_train_progress env name w = (Inr tp, w1)
        \<and> load_diffusers env mt wd name w1 = (Inr model, w2)
        \<and> internal_optimizer env name model w2 = (Inr model1, w3)
        \<and> internal_ema env name model1 w3 = (Inl e, w4)"
    using that by (auto intro: load_internal_ema_raises)
  show "\<exists>wo. optimizer_state_dict m' =
               (case torch_load env wo (os_path_join env b [''optimizer'', ''optimizer.pt'']) of
                  Inl e \<Rightarrow> None | Inr sd \<Rightarrow> Some sd)
            \<and> ema_state_dict m' =
               (case torch_load env (wo @ [Call ''torch.load''])
                       (os_path_join env b [''ema'', ''ema.pt'']) of
                  Inl e \<Rightarrow> None | Inr sd \<Rightarrow> Some sd)"
    if "load_internal env mt wd (Some b) w = (Inr (Some m'), w')"
    using that by (rule load_internal_state_dicts)
qed

theorem missing_optimizer_or_ema_tolerated_witness:
  "(\<exists>m. fst (load_internal (demo_env [Some ''run1''] demo_run_dir [] [])
               STABLE_DIFFUSION_15 demo_dtypes (Some ''run1'') []) = Inr (Some m)
        \<and> optimizer_state_dict m = None \<and> ema_state_dict m = Some ''run1/ema/ema.pt'')
   \<and> fst (load_internal
            ((demo_env [Some ''run1''] demo_run_dir [] [])
               \<lparr> torch_load := (\<lambda>w p. Inl (OtherError ''not a torch file'')) \<rparr>)
            STABLE_DIFFUSION_15 demo_dtypes (Some ''run1'') [])
     = Inl (OtherError ''not a torch file'')"
proof -
  let ?env = "demo_env [Some ''run1''] demo_run_dir [] []"
  let ?bad = "?env \<lparr> torch_load := (\<lambda>w p. Inl (OtherError ''not a torch file'')) \<rparr>"
  let ?m0 = "\<lparr>model_type = STABLE_DIFFUSION_15, tokenizer = ''tokenizer'',
           noise_scheduler = ''scheduler'', text_encoder = ''text_encoder'',
           vae = ''vae'', unet = ''unet'', image_depth_processor = None,
           depth_estimator = None, sd_config = PyDict [],
           model_spec = Some ''ModelSpec()'', optimizer_state_dict = None,
           ema_state_dict = None, train_progress = None\<rparr>"
  let ?tp = "\<lparr>epoch = PyInt 3, epoch_step = PyInt 0, epoch_sample = PyInt 0,
              global_step = PyInt 120\<rparr>"
  let ?w1 = "[Call ''open'', Call ''json.load'']"
  let ?w2 = "?w1 @ [Call ''CLIPTokenizer.from_pretrained'',
       Call ''DDIMScheduler.from_pretrained'', Call ''CLIPTextModel.from_pretrained'',
       Call ''AutoencoderKL.from_pretrained'', Call ''UNet2DConditionModel.from_pretrained'',
       Call ''open'', Call ''yaml.safe_load'']"
  have good: "fst (load_internal ?env STABLE_DIFFUSION_15 demo_dtypes (Some ''run1'') [])
      = Inr (Some (?m0\<lparr>ema_state_dict := Some ''run1/ema/ema.pt'',
                         train_progress := Some ?tp\<rparr>))"
    by (simp add: run_defs demo_run_dir_def)
  have t: "internal_train_progress ?bad (Some ''run1'') [] = (Inr ?tp, ?w1)"
    by (simp add: run_defs demo_run_dir_def)
  have d: "load_diffusers ?bad STABLE_DIFFUSION_15 demo_dtypes (Some ''run1'') ?w1
           = (Inr (Some ?m0), ?w2)"
    by (simp add: run_defs demo_run_dir_def)
  have o: "internal_optimizer ?bad (Some ''run1'') (Some ?m0) ?w2
           = (Inl (OtherError ''not a torch file''), ?w2 @ [Call ''torch.load''])"
    using missing_optimizer_or_ema_tolerated
            [where env = ?bad and b = "''run1''" and m = ?m0 and w = ?w2]
    by (simp add: demo_env_def)
  have "load_internal ?bad STABLE_DIFFUSION_15 demo_dtypes (Some ''run1'') []
        = (Inl (OtherError ''not a torch file''), ?w2 @ [Call ''torch.load''])"
    using missing_optimizer_or_ema_tolerated
            [where env = ?bad and name = "Some ''run1''" and w = "[]" and tp = ?tp
               and ?w1.0 = ?w1 and mt = STABLE_DIFFUSION_15 and wd = demo_dtypes
               and model = "Some ?m0" and ?w2.0 = ?w2 and e = "OtherError ''not a torch file''"
               and ?w3.0 = "?w2 @ [Call ''torch.load'']"]
          t d o
    by blast
  with good show ?thesis by simp
qed

end
